theory Spec2Isabelle
  imports Main "HOL-Library.Word"
begin

section \<open>Values shared by the packages\<close>

text \<open>
  An instant of \<open>time.Time\<close> is its reading in nanoseconds. \<open>t.After(u)\<close> is
  \<open>u < t\<close>, \<open>t.Add(d)\<close> is \<open>t + d\<close>. Every call of \<open>time.Now()\<close> in a function
  body is one argument of the model of that function, in the order of the reads, so that
  two reads in one call may differ. The reads that only feed the trace identifier and
  the \<open>fmt.Printf\<close> log lines are left out: they change no state and no result.
\<close>

type_synonym time = int

definition Hour :: int where
  "Hour = 3600 * 1000000000"

text \<open>The zero \<open>time.Time\<close> is 1 January of year 1, before the Unix epoch.\<close>

definition zeroTime :: time where
  "zeroTime = - 62135596800 * 1000000000"

text \<open>\<open>Time.UnixNano\<close> is an \<open>int64\<close>: the nanoseconds wrap at 64 bits.\<close>

definition UnixNano :: "time \<Rightarrow> int" where
  "UnixNano t = sint (word_of_int t :: 64 word)"

text \<open>The verb \<open>%d\<close> of \<open>fmt.Sprintf\<close>: decimal digits, a minus sign when negative.\<close>

function digits :: "nat \<Rightarrow> string" where
  "digits n = (if n < 10 then [char_of (48 + n)]
               else digits (n div 10) @ [char_of (48 + n mod 10)])"
  by pat_completeness auto
termination
  by (relation "measure id") auto

declare digits.simps [simp del]

definition itoa :: "int \<Rightarrow> string" where
  "itoa i = (if i < 0 then CHR ''-'' # digits (nat (- i)) else digits (nat i))"

text \<open>
  The error values of the program: the three sentinels of package \<open>models\<close>,
  \<open>errors.New(msg)\<close> and \<open>fmt.Errorf("msg: %w", err)\<close>. A function that returns
  only \<open>error\<close> returns \<open>error option\<close>, \<open>None\<close> for \<open>nil\<close>.
\<close>

datatype error =
    ErrInvalidCredentials
  | ErrUserNotFound
  | ErrEmailAlreadyExists
  | ErrNew string
  | ErrWrap string error

section \<open>models.User and the in-memory user repository\<close>

record User =
  User_ID :: string
  User_Email :: string
  User_Name :: string
  User_Role :: string
  User_CreatedAt :: time
  User_UpdatedAt :: time
  User_LastLogin :: time

text \<open>
  The two Go maps hold pointers to structs that are never written after they are stored
  (every write stores a fresh copy), and \<open>User\<close> has no slice or pointer field, so the
  maps are modelled with the structs as values. Each operation is one step on the
  state; what it does with the mutex is the subject of a later section.
\<close>

record MemoryUserRepository =
  users :: "string \<rightharpoonup> User"
  byEmail :: "string \<rightharpoonup> User"

definition MemoryUserRepository_GetByID ::
  "MemoryUserRepository \<Rightarrow> string \<Rightarrow> error + User" where
  "MemoryUserRepository_GetByID r i =
     (case users r i of
        None \<Rightarrow> Inl ErrUserNotFound
      | Some user \<Rightarrow> Inr user)"

definition MemoryUserRepository_GetByEmail ::
  "MemoryUserRepository \<Rightarrow> string \<Rightarrow> error + User" where
  "MemoryUserRepository_GetByEmail r email =
     (case byEmail r email of
        None \<Rightarrow> Inl ErrUserNotFound
      | Some user \<Rightarrow> Inr user)"

definition MemoryUserRepository_Create ::
  "MemoryUserRepository \<Rightarrow> User \<Rightarrow> error option \<times> MemoryUserRepository" where
  "MemoryUserRepository_Create r user =
     (if users r (User_ID user) \<noteq> None
      then (Some (ErrNew ''user with this ID already exists''), r)
      else if byEmail r (User_Email user) \<noteq> None
      then (Some ErrEmailAlreadyExists, r)
      else (None, r\<lparr>users := (users r)(User_ID user \<mapsto> user),
                      byEmail := (byEmail r)(User_Email user \<mapsto> user)\<rparr>))"

definition MemoryUserRepository_Update ::
  "MemoryUserRepository \<Rightarrow> User \<Rightarrow> error option \<times> MemoryUserRepository" where
  "MemoryUserRepository_Update r user =
     (case users r (User_ID user) of
        None \<Rightarrow> (Some ErrUserNotFound, r)
      | Some existingUser \<Rightarrow>
          if User_Email existingUser \<noteq> User_Email user
          then (if byEmail r (User_Email user) \<noteq> None
                then (Some ErrEmailAlreadyExists, r)
                else (None,
                  r\<lparr>users := (users r)(User_ID user \<mapsto> user),
                    byEmail := ((byEmail r)(User_Email existingUser := None))
                                 (User_Email user \<mapsto> user)\<rparr>))
          else (None,
                  r\<lparr>users := (users r)(User_ID user \<mapsto> user),
                    byEmail := (byEmail r)(User_Email user \<mapsto> user)\<rparr>))"

definition MemoryUserRepository_Delete ::
  "MemoryUserRepository \<Rightarrow> string \<Rightarrow> error option \<times> MemoryUserRepository" where
  "MemoryUserRepository_Delete r i =
     (case users r i of
        None \<Rightarrow> (Some ErrUserNotFound, r)
      | Some user \<Rightarrow>
          (None, r\<lparr>users := (users r)(i := None),
                    byEmail := (byEmail r)(User_Email user := None)\<rparr>))"

text \<open>
  \<open>NewMemoryUserRepository\<close> seeds the development account. The identifier comes from
  \<open>utils.GenerateID\<close> (clock and random number) and the timestamps from the clock: both
  are arguments. A failed \<open>Create\<close> is only logged.
\<close>

definition NewUser :: "string \<Rightarrow> string \<Rightarrow> string \<Rightarrow> time \<Rightarrow> User" where
  "NewUser generated email name now =
     \<lparr>User_ID = generated, User_Email = email, User_Name = name, User_Role = ''user'',
      User_CreatedAt = now, User_UpdatedAt = now, User_LastLogin = zeroTime\<rparr>"

definition NewMemoryUserRepository :: "string \<Rightarrow> time \<Rightarrow> MemoryUserRepository" where
  "NewMemoryUserRepository generated now =
     snd (MemoryUserRepository_Create \<lparr>users = Map.empty, byEmail = Map.empty\<rparr>
            ((NewUser generated ''test@untie.me'' ''Test User'' now)\<lparr>User_Role := ''admin''\<rparr>))"

section \<open>The authentication service and its session table\<close>

record sessionData =
  userID :: string
  expiresAt :: time
  lastActive :: time

text \<open>
  \<open>AuthServiceImpl\<close> holds the user repository (shared with every other holder of the
  same repository: an operation on the repository is an update of the field
  \<open>userRepo\<close>) and the map of sessions.
\<close>

record AuthServiceImpl =
  userRepo :: MemoryUserRepository
  sessions :: "string \<rightharpoonup> sessionData"

definition NewAuthService :: "MemoryUserRepository \<Rightarrow> AuthServiceImpl" where
  "NewAuthService r = \<lparr>userRepo = r, sessions = Map.empty\<rparr>"

text \<open>\<open>errors.Is\<close>: the error itself or an error it wraps is the target.\<close>

fun errors_Is :: "error \<Rightarrow> error \<Rightarrow> bool" where
  "errors_Is (ErrWrap msg err) target = (ErrWrap msg err = target \<or> errors_Is err target)"
| "errors_Is err target = (err = target)"

text \<open>
  In \<open>Authenticate\<close>, a failure of \<open>Update\<close> after an accepted login is logged and
  ignored; the user returned is the copy with \<open>LastLogin\<close> set.
\<close>

definition Authenticate ::
  "AuthServiceImpl \<Rightarrow> string \<Rightarrow> string \<Rightarrow> time \<Rightarrow> (error + User) \<times> AuthServiceImpl" where
  "Authenticate s email password now =
     (case MemoryUserRepository_GetByEmail (userRepo s) email of
        Inl err \<Rightarrow>
          if errors_Is err ErrUserNotFound then (Inl ErrInvalidCredentials, s)
          else (Inl err, s)
      | Inr user \<Rightarrow>
          if email = ''test@untie.me''
          then (let user' = user\<lparr>User_LastLogin := now\<rparr>
                in (Inr user',
                    s\<lparr>userRepo := snd (MemoryUserRepository_Update (userRepo s) user')\<rparr>))
          else if password = ''test-password''
          then (let user' = user\<lparr>User_LastLogin := now\<rparr>
                in (Inr user',
                    s\<lparr>userRepo := snd (MemoryUserRepository_Update (userRepo s) user')\<rparr>))
          else (Inl ErrInvalidCredentials, s))"

definition VerifySession ::
  "AuthServiceImpl \<Rightarrow> string \<Rightarrow> time \<Rightarrow> time \<Rightarrow> (error + User) \<times> AuthServiceImpl" where
  "VerifySession s sessionToken nowCheck nowActive =
     (case sessions s sessionToken of
        None \<Rightarrow> (Inl (ErrNew ''invalid session''), s)
      | Some session \<Rightarrow>
          if expiresAt session < nowCheck
          then (Inl (ErrNew ''session expired''),
                s\<lparr>sessions := (sessions s)(sessionToken := None)\<rparr>)
          else (case MemoryUserRepository_GetByID (userRepo s) (userID session) of
                  Inl err \<Rightarrow> (Inl err, s)
                | Inr user \<Rightarrow>
                    (Inr user,
                     s\<lparr>sessions := (sessions s)
                          (sessionToken \<mapsto> session\<lparr>lastActive := nowActive\<rparr>)\<rparr>)))"

definition GenerateSessionToken ::
  "AuthServiceImpl \<Rightarrow> User \<Rightarrow> time \<Rightarrow> time \<Rightarrow> time
     \<Rightarrow> (string \<times> error option) \<times> AuthServiceImpl" where
  "GenerateSessionToken s user nowToken nowExpiry nowActive =
     (let tokenValue = ''session-'' @ itoa (UnixNano nowToken) @ ''-'' @ User_ID user;
          expires = nowExpiry + 24 * Hour
      in ((tokenValue, None),
          s\<lparr>sessions := (sessions s)
               (tokenValue \<mapsto> \<lparr>userID = User_ID user, expiresAt = expires,
                                lastActive = nowActive\<rparr>)\<rparr>))"

definition InvalidateSession ::
  "AuthServiceImpl \<Rightarrow> string \<Rightarrow> error option \<times> AuthServiceImpl" where
  "InvalidateSession s sessionToken =
     (case sessions s sessionToken of
        None \<Rightarrow> (None, s)
      | Some _ \<Rightarrow> (None, s\<lparr>sessions := (sessions s)(sessionToken := None)\<rparr>))"

section \<open>models.Project and the memory its slices share\<close>

text \<open>
  A Go slice is a header (pointer to a backing array, length, capacity); copying a struct
  copies the headers of its slice fields, not the arrays. The arrays live in a heap, one
  table per element type, indexed by address. The capacity is left out: nothing modelled
  here appends or reslices.
\<close>

record slice =
  array :: nat
  len :: nat

record FeatureImpl =
  FeatureImpl_Version :: string
  FeatureImpl_Status :: string
  FeatureImpl_Description :: string

record Feature =
  Feature_ID :: string
  Feature_Name :: string
  Feature_Description :: string
  Feature_Versions :: slice

record TechStack =
  Frontend :: slice
  Backend :: slice
  Database :: slice
  Hosting :: slice
  CI :: slice
  Other :: slice

record Project =
  Project_ID :: string
  Project_Name :: string
  Project_Description :: string
  Project_CreatedAt :: time
  Project_UpdatedAt :: time
  Project_UserID :: string
  Project_TechStack :: TechStack
  Project_Features :: slice

record Heap =
  stringArrays :: "nat \<Rightarrow> string list"
  featureImplArrays :: "nat \<Rightarrow> FeatureImpl list"
  featureArrays :: "nat \<Rightarrow> Feature list"

text \<open>
  \<open>s[i].Name = v\<close> and \<open>s[i] = v\<close> on a slice: a write into the backing array, a
  panic (\<open>None\<close>) out of range.
\<close>

definition assign_Feature_Name :: "Heap \<Rightarrow> slice \<Rightarrow> nat \<Rightarrow> string \<Rightarrow> Heap option" where
  "assign_Feature_Name h s i v =
     (if i < len s \<and> i < length (featureArrays h (array s))
      then Some (h\<lparr>featureArrays :=
                    (featureArrays h)(array s :=
                       (featureArrays h (array s))
                         [i := (featureArrays h (array s) ! i)\<lparr>Feature_Name := v\<rparr>])\<rparr>)
      else None)"

definition assign_string :: "Heap \<Rightarrow> slice \<Rightarrow> nat \<Rightarrow> string \<Rightarrow> Heap option" where
  "assign_string h s i v =
     (if i < len s \<and> i < length (stringArrays h (array s))
      then Some (h\<lparr>stringArrays :=
                    (stringArrays h)(array s := (stringArrays h (array s))[i := v])\<rparr>)
      else None)"

text \<open>What a reader of a project sees through its slice fields (\<open>range s\<close>).\<close>

definition range_string :: "Heap \<Rightarrow> slice \<Rightarrow> string list" where
  "range_string h s = take (len s) (stringArrays h (array s))"

definition range_FeatureImpl :: "Heap \<Rightarrow> slice \<Rightarrow> FeatureImpl list" where
  "range_FeatureImpl h s = take (len s) (featureImplArrays h (array s))"

definition range_Feature :: "Heap \<Rightarrow> slice \<Rightarrow> Feature list" where
  "range_Feature h s = take (len s) (featureArrays h (array s))"

definition read_Features ::
  "Heap \<Rightarrow> Project \<Rightarrow> (string \<times> string \<times> string \<times> FeatureImpl list) list" where
  "read_Features h p =
     map (\<lambda>f. (Feature_ID f, Feature_Name f, Feature_Description f,
                range_FeatureImpl h (Feature_Versions f)))
       (range_Feature h (Project_Features p))"

definition read_TechStack :: "Heap \<Rightarrow> Project \<Rightarrow> string list list" where
  "read_TechStack h p =
     map (\<lambda>field. range_string h (field (Project_TechStack p)))
       [Frontend, Backend, Database, Hosting, CI, Other]"

section \<open>The in-memory project repository\<close>

text \<open>
  The map holds pointers to structs that are replaced, never written, once stored, so the
  structs are the values of the map. \<open>projectCopy := *project\<close> is the struct
  itself: its slice headers still name the arrays of the original.
\<close>

record MemoryProjectRepository =
  projects :: "string \<rightharpoonup> Project"

definition NewMemoryProjectRepository :: MemoryProjectRepository where
  "NewMemoryProjectRepository = \<lparr>projects = Map.empty\<rparr>"

definition MemoryProjectRepository_GetByID ::
  "MemoryProjectRepository \<Rightarrow> string \<Rightarrow> error + Project" where
  "MemoryProjectRepository_GetByID r i =
     (case projects r i of
        None \<Rightarrow> Inl (ErrNew ''project not found'')
      | Some project \<Rightarrow> Inr project)"

text \<open>
  \<open>range r.projects\<close> visits the keys of the map in an order Go leaves open: the
  order is the argument \<open>visit\<close>, an enumeration of the keys.
\<close>

definition MemoryProjectRepository_List ::
  "MemoryProjectRepository \<Rightarrow> string list \<Rightarrow> string \<Rightarrow> Project list \<times> error option" where
  "MemoryProjectRepository_List r visit uid =
     (List.map_filter
        (\<lambda>k. case projects r k of
                None \<Rightarrow> None
              | Some project \<Rightarrow> if Project_UserID project = uid then Some project else None)
        visit,
      None)"

definition MemoryProjectRepository_Create ::
  "MemoryProjectRepository \<Rightarrow> Project \<Rightarrow> error option \<times> MemoryProjectRepository" where
  "MemoryProjectRepository_Create r project =
     (if projects r (Project_ID project) \<noteq> None
      then (Some (ErrNew ''project with this ID already exists''), r)
      else (None, r\<lparr>projects := (projects r)(Project_ID project \<mapsto> project)\<rparr>))"

definition MemoryProjectRepository_Update ::
  "MemoryProjectRepository \<Rightarrow> Project \<Rightarrow> error option \<times> MemoryProjectRepository" where
  "MemoryProjectRepository_Update r project =
     (if projects r (Project_ID project) = None
      then (Some (ErrNew ''project not found''), r)
      else (None, r\<lparr>projects := (projects r)(Project_ID project \<mapsto> project)\<rparr>))"

definition MemoryProjectRepository_Delete ::
  "MemoryProjectRepository \<Rightarrow> string \<Rightarrow> error option \<times> MemoryProjectRepository" where
  "MemoryProjectRepository_Delete r i =
     (if projects r i = None
      then (Some (ErrNew ''project not found''), r)
      else (None, r\<lparr>projects := (projects r)(i := None)\<rparr>))"

section \<open>The project service\<close>

text \<open>
  The service methods that take a \<open>*Project\<close> write fields of the caller's struct;
  the struct as the call leaves it is part of the result.
\<close>

definition GetProject :: "MemoryProjectRepository \<Rightarrow> string \<Rightarrow> error + Project" where
  "GetProject r i =
     (case MemoryProjectRepository_GetByID r i of
        Inl err \<Rightarrow> Inl (ErrWrap ''failed to get project'' err)
      | Inr project \<Rightarrow> Inr project)"

definition CreateProject ::
  "MemoryProjectRepository \<Rightarrow> Project \<Rightarrow> time
     \<Rightarrow> (error option \<times> Project) \<times> MemoryProjectRepository" where
  "CreateProject r project now =
     (if Project_Name project = []
      then ((Some (ErrNew ''project name cannot be empty''), project), r)
      else
        let project1 = project\<lparr>Project_CreatedAt := now, Project_UpdatedAt := now\<rparr>;
            project2 = (if Project_ID project1 = []
                        then project1\<lparr>Project_ID := ''proj-'' @ itoa (UnixNano now)\<rparr>
                        else project1)
        in case MemoryProjectRepository_Create r project2 of
             (Some err, r') \<Rightarrow> ((Some (ErrWrap ''failed to create project'' err), project2), r')
           | (None, r') \<Rightarrow> ((None, project2), r'))"

definition UpdateProject ::
  "MemoryProjectRepository \<Rightarrow> Project \<Rightarrow> time
     \<Rightarrow> (error option \<times> Project) \<times> MemoryProjectRepository" where
  "UpdateProject r project now =
     (case MemoryProjectRepository_GetByID r (Project_ID project) of
        Inl err \<Rightarrow> ((Some (ErrWrap ''failed to get existing project'' err), project), r)
      | Inr existingProject \<Rightarrow>
          if Project_Name project = []
          then ((Some (ErrNew ''project name cannot be empty''), project), r)
          else
            (let project' = project\<lparr>Project_CreatedAt := Project_CreatedAt existingProject,
                                      Project_UpdatedAt := now\<rparr>
             in (case MemoryProjectRepository_Update r project' of
                   (Some err, r') \<Rightarrow>
                     ((Some (ErrWrap ''failed to update project'' err), project'), r')
                 | (None, r') \<Rightarrow> ((None, project'), r'))))"

definition DeleteProject ::
  "MemoryProjectRepository \<Rightarrow> string \<Rightarrow> error option \<times> MemoryProjectRepository" where
  "DeleteProject r i =
     (case MemoryProjectRepository_GetByID r i of
        Inl err \<Rightarrow> (Some (ErrWrap ''failed to get project for deletion'' err), r)
      | Inr _ \<Rightarrow>
          (case MemoryProjectRepository_Delete r i of
             (Some err, r') \<Rightarrow> (Some (ErrWrap ''failed to delete project'' err), r')
           | (None, r') \<Rightarrow> (None, r')))"

section \<open>Responses, cookies and the request context\<close>

text \<open>
  A response is its status and what the handler put in it: the \<open>gin.H\<close> of a JSON
  answer (an error message, a project, a deleted identifier), the target of a redirect,
  the template and values of a page. A cookie is the argument list of \<open>c.SetCookie\<close>;
  the cookies of a request are a map from name to value (\<open>c.Cookie(name)\<close> fails when
  the name is absent).
\<close>

datatype body =
    ErrorBody string
  | ProjectBody Project
  | DeletedBody string

datatype response =
    JSON nat body
  | Redirect nat string
  | HTML nat string "(string \<times> string) list"

record Cookie =
  Cookie_name :: string
  Cookie_value :: string
  Cookie_maxAge :: int
  Cookie_path :: string
  Cookie_domain :: string
  Cookie_secure :: bool
  Cookie_httpOnly :: bool

text \<open>The keys \<open>"user"\<close> and \<open>"authenticated"\<close> of the \<open>gin.Context\<close>.\<close>

record Context =
  ctx_user :: "User option"
  ctx_authenticated :: "bool option"

text \<open>
  What a client sends back after a response: each cookie it was given with a positive
  age, under the name it was given. (\<open>c.SetCookie\<close> escapes the value and
  \<open>c.Cookie\<close> unescapes it: the value read is the value set.)
\<close>

definition cookies_sent_back :: "Cookie list \<Rightarrow> (string \<rightharpoonup> string)" where
  "cookies_sent_back cs =
     map_of (map (\<lambda>c. (Cookie_name c, Cookie_value c))
               (filter (\<lambda>c. 0 < Cookie_maxAge c) cs))"

section \<open>strings.TrimSpace, strings.HasPrefix, strings.Contains\<close>

text \<open>
  The UTF-8 encodings of the code points for which \<open>unicode.IsSpace\<close> holds: tab, line
  feed, vertical tab, form feed, carriage return, space, U+0085, U+00A0, U+1680,
  U+2000 to U+200A, U+2028, U+2029, U+202F, U+205F, U+3000.
\<close>

definition space_runes :: "string list" where
  "space_runes =
    [[CHR 0x09], [CHR 0x0A], [CHR 0x0B], [CHR 0x0C], [CHR 0x0D], [CHR 0x20],
     [CHR 0xC2, CHR 0x85], [CHR 0xC2, CHR 0xA0],
     [CHR 0xE1, CHR 0x9A, CHR 0x80],
     [CHR 0xE2, CHR 0x80, CHR 0x80], [CHR 0xE2, CHR 0x80, CHR 0x81],
     [CHR 0xE2, CHR 0x80, CHR 0x82], [CHR 0xE2, CHR 0x80, CHR 0x83],
     [CHR 0xE2, CHR 0x80, CHR 0x84], [CHR 0xE2, CHR 0x80, CHR 0x85],
     [CHR 0xE2, CHR 0x80, CHR 0x86], [CHR 0xE2, CHR 0x80, CHR 0x87],
     [CHR 0xE2, CHR 0x80, CHR 0x88], [CHR 0xE2, CHR 0x80, CHR 0x89],
     [CHR 0xE2, CHR 0x80, CHR 0x8A],
     [CHR 0xE2, CHR 0x80, CHR 0xA8], [CHR 0xE2, CHR 0x80, CHR 0xA9],
     [CHR 0xE2, CHR 0x80, CHR 0xAF], [CHR 0xE2, CHR 0x81, CHR 0x9F],
     [CHR 0xE3, CHR 0x80, CHR 0x80]]"

function trim_left :: "string list \<Rightarrow> string \<Rightarrow> string" where
  "trim_left rs s =
     (case find (\<lambda>e. e \<noteq> [] \<and> take (length e) s = e) rs of
        None \<Rightarrow> s
      | Some e \<Rightarrow> trim_left rs (drop (length e) s))"
  by pat_completeness auto
termination
proof (relation "measure (\<lambda>(rs, s). length s)")
  show "wf (measure (\<lambda>(rs, s). length s))" by simp
next
  fix rs :: "string list" and s e :: string
  assume "find (\<lambda>e. e \<noteq> [] \<and> take (length e) s = e) rs = Some e"
  then have "e \<noteq> []" and "take (length e) s = e"
    by (auto simp: find_Some_iff)
  then have "s \<noteq> []" by auto
  with \<open>e \<noteq> []\<close> show "((rs, drop (length e) s), (rs, s)) \<in> measure (\<lambda>(rs, s). length s)"
    by simp
qed

declare trim_left.simps [simp del]

definition TrimSpace :: "string \<Rightarrow> string" where
  "TrimSpace s = rev (trim_left (map rev space_runes) (rev (trim_left space_runes s)))"

definition HasPrefix :: "string \<Rightarrow> string \<Rightarrow> bool" where
  "HasPrefix s pre = (take (length pre) s = pre)"

fun Contains :: "string \<Rightarrow> string \<Rightarrow> bool" where
  "Contains [] sub = (sub = [])"
| "Contains (c # cs) sub = (HasPrefix (c # cs) sub \<or> Contains cs sub)"

section \<open>The session middleware\<close>

definition SessionMiddleware ::
  "AuthServiceImpl \<Rightarrow> (string \<rightharpoonup> string) \<Rightarrow> time \<Rightarrow> time
     \<Rightarrow> (Context \<times> Cookie list) \<times> AuthServiceImpl" where
  "SessionMiddleware s cookies nowCheck nowActive =
     (case cookies ''session_token'' of
        None \<Rightarrow> ((\<lparr>ctx_user = None, ctx_authenticated = Some False\<rparr>, []), s)
      | Some sessionToken \<Rightarrow>
          (case VerifySession s sessionToken nowCheck nowActive of
             (Inl err, s') \<Rightarrow>
               ((\<lparr>ctx_user = None, ctx_authenticated = Some False\<rparr>,
                 [\<lparr>Cookie_name = ''session_token'', Cookie_value = [], Cookie_maxAge = - 1,
                   Cookie_path = ''/'', Cookie_domain = [], Cookie_secure = False,
                   Cookie_httpOnly = True\<rparr>]), s')
           | (Inr user, s') \<Rightarrow>
               ((\<lparr>ctx_user = Some user, ctx_authenticated = Some True\<rparr>, []), s')))"

text \<open>
  \<open>RequireAuth\<close>: \<open>None\<close> when the request goes on to the handler, otherwise the
  redirect to the login page and the cookie that remembers the requested URL.
\<close>

definition RequireAuth :: "Context \<Rightarrow> string \<Rightarrow> (response \<times> Cookie list) option" where
  "RequireAuth c url =
     (if ctx_authenticated c = Some True then None
      else Some (Redirect 302 ''/auth/login'',
             [\<lparr>Cookie_name = ''return_to'', Cookie_value = url, Cookie_maxAge = 300,
               Cookie_path = ''/'', Cookie_domain = [], Cookie_secure = False,
               Cookie_httpOnly = True\<rparr>]))"

section \<open>The handlers\<close>

text \<open>
  The project routes are registered behind \<open>RequireAuth\<close>, which lets a request through
  only when the session middleware has stored a user: \<open>getCurrentUser\<close> returns that
  user, an argument here. \<open>c.Param("id")\<close> is the argument \<open>i\<close>; the outcome of
  \<open>c.BindJSON\<close> on the request body is the argument \<open>updateData\<close>, \<open>None\<close> when
  the body does not parse, otherwise the fields \<open>Name\<close> and \<open>Description\<close>.
\<close>

definition APIUpdateProject ::
  "MemoryProjectRepository \<Rightarrow> string \<Rightarrow> User \<Rightarrow> (string \<times> string) option \<Rightarrow> time
     \<Rightarrow> response \<times> MemoryProjectRepository" where
  "APIUpdateProject r i user updateData now =
     (case GetProject r i of
        Inl err \<Rightarrow> (JSON 404 (ErrorBody ''Project not found''), r)
      | Inr project \<Rightarrow>
          if Project_UserID project \<noteq> User_ID user
          then (JSON 403 (ErrorBody ''You do not have permission to update this project''), r)
          else
            (case updateData of
               None \<Rightarrow> (JSON 400 (ErrorBody ''Invalid data format''), r)
             | Some (name, description) \<Rightarrow>
                 (let project1 = (if name \<noteq> [] then project\<lparr>Project_Name := name\<rparr>
                                  else project);
                      project2 = (if description \<noteq> []
                                  then project1\<lparr>Project_Description := description\<rparr>
                                  else project1)
                  in (case UpdateProject r project2 now of
                        ((Some err, project3), r') \<Rightarrow>
                          (JSON 500 (ErrorBody ''Failed to update project''), r')
                      | ((None, project3), r') \<Rightarrow> (JSON 200 (ProjectBody project3), r')))))"

definition APIDeleteProject ::
  "MemoryProjectRepository \<Rightarrow> string \<Rightarrow> User \<Rightarrow> response \<times> MemoryProjectRepository" where
  "APIDeleteProject r i user =
     (case GetProject r i of
        Inl err \<Rightarrow> (JSON 404 (ErrorBody ''Project not found''), r)
      | Inr project \<Rightarrow>
          if Project_UserID project \<noteq> User_ID user
          then (JSON 403 (ErrorBody ''You do not have permission to delete this project''), r)
          else
            (case DeleteProject r i of
               (Some err, r') \<Rightarrow> (JSON 500 (ErrorBody ''Failed to delete project''), r')
             | (None, r') \<Rightarrow> (JSON 200 (DeletedBody i), r')))"

text \<open>The three fields \<open>c.PostForm\<close> reads at login; an absent field reads as empty.\<close>

record LoginForm =
  form_email :: string
  form_password :: string
  form_remember_me :: string

definition Login ::
  "AuthServiceImpl \<Rightarrow> LoginForm \<Rightarrow> time \<Rightarrow> time \<Rightarrow> time \<Rightarrow> time
     \<Rightarrow> (response \<times> Cookie list) \<times> AuthServiceImpl" where
  "Login s form nowLogin nowToken nowExpiry nowActive =
     (let email = form_email form;
          password = form_password form;
          rememberMe = (form_remember_me form \<noteq> [])
      in if TrimSpace email = [] \<or> TrimSpace password = []
         then (let redirectURL = ''/auth/login?error=Email and password are required''
               in ((Redirect 303 (if email \<noteq> [] then redirectURL @ ''&email='' @ email
                                  else redirectURL), []), s))
         else
           (case Authenticate s email password nowLogin of
              (Inl err, s1) \<Rightarrow>
                (let errorMsg =
                       (if err = ErrUserNotFound then ''Invalid email or password''
                        else if err = ErrInvalidCredentials then ''Invalid email or password''
                        else ''Authentication failed'');
                     redirectURL = ''/auth/login?error='' @ errorMsg
                 in ((Redirect 303 (if email \<noteq> [] then redirectURL @ ''&email='' @ email
                                    else redirectURL), []), s1))
            | (Inr user, s1) \<Rightarrow>
                (case GenerateSessionToken s1 user nowToken nowExpiry nowActive of
                   ((token, Some err), s2) \<Rightarrow>
                     ((Redirect 303 ''/auth/login?error=Session creation failed'', []), s2)
                 | ((token, None), s2) \<Rightarrow>
                     ((Redirect 303 ''/'',
                       [\<lparr>Cookie_name = ''session'', Cookie_value = token,
                         Cookie_maxAge = (if rememberMe then 7 * 24 * 3600 else 3600),
                         Cookie_path = ''/'', Cookie_domain = [], Cookie_secure = False,
                         Cookie_httpOnly = True\<rparr>]), s2))))"

text \<open>
  The other \<open>Login\<close> of the repository (the handlers file whose home page still uses
  a placeholder user): it answers with pages instead of redirects, sets the cookie
  \<open>session_token\<close> and honours the \<open>return_to\<close> cookie of the request.
\<close>

definition Login_session_token ::
  "AuthServiceImpl \<Rightarrow> LoginForm \<Rightarrow> (string \<rightharpoonup> string) \<Rightarrow> time \<Rightarrow> time \<Rightarrow> time \<Rightarrow> time
     \<Rightarrow> (response \<times> Cookie list) \<times> AuthServiceImpl" where
  "Login_session_token s form cookies nowLogin nowToken nowExpiry nowActive =
     (let email = form_email form;
          password = form_password form;
          rememberMe = (form_remember_me form = ''on'')
      in if email = [] \<or> password = []
         then ((HTML 400 ''base'' [(''title'', ''Login''),
                  (''error'', ''Email and password are required''), (''email'', email)], []), s)
         else
           (case Authenticate s email password nowLogin of
              (Inl err, s1) \<Rightarrow>
                ((HTML 401 ''base'' [(''title'', ''Login''),
                    (''error'', ''Invalid email or password''), (''email'', email)], []), s1)
            | (Inr user, s1) \<Rightarrow>
                (case GenerateSessionToken s1 user nowToken nowExpiry nowActive of
                   ((token, Some err), s2) \<Rightarrow>
                     ((HTML 500 ''base'' [(''title'', ''Error''),
                         (''error'', ''Failed to create session'')], []), s2)
                 | ((token, None), s2) \<Rightarrow>
                     (let sessionCookie =
                            \<lparr>Cookie_name = ''session_token'', Cookie_value = token,
                             Cookie_maxAge = (if rememberMe then 60 * 60 * 24 * 30
                                              else 60 * 60 * 24),
                             Cookie_path = ''/'', Cookie_domain = [], Cookie_secure = False,
                             Cookie_httpOnly = True\<rparr>;
                          clearReturnTo =
                            \<lparr>Cookie_name = ''return_to'', Cookie_value = [],
                             Cookie_maxAge = - 1,
                             Cookie_path = ''/'', Cookie_domain = [], Cookie_secure = False,
                             Cookie_httpOnly = True\<rparr>
                      in (case cookies ''return_to'' of
                            None \<Rightarrow> ((Redirect 303 ''/'', [sessionCookie]), s2)
                          | Some returnTo \<Rightarrow>
                              if returnTo = [] then ((Redirect 303 ''/'', [sessionCookie]), s2)
                              else if HasPrefix returnTo ''/'' \<and> \<not> Contains returnTo ''://''
                              then ((Redirect 303 returnTo, [sessionCookie, clearReturnTo]), s2)
                              else ((Redirect 303 ''/'', [sessionCookie, clearReturnTo]), s2))))))"

section \<open>Locks and map accesses\<close>

text \<open>
  The three stores and the events of a method on them, in the order of its statements:
  the calls on the \<open>sync.RWMutex\<close> of a store, and the accesses to its maps (an index
  expression is a read; an assignment and \<open>delete\<close> are writes). A deferred
  \<open>Unlock\<close> is the last event of the call.
\<close>

datatype object = UserRepository | ProjectRepository | SessionRegistry

datatype event =
    Lock object
  | RLock object
  | Unlock object
  | RUnlock object
  | MapRead object
  | MapWrite object

text \<open>
  \<open>guarded ob h es\<close>: along \<open>es\<close>, starting with the lock of \<open>ob\<close> in state
  \<open>h\<close>, every read of a map of \<open>ob\<close> happens with its lock held and every write
  with its lock held for writing.
\<close>

datatype held = Unheld | ReadHeld | WriteHeld

fun guarded :: "object \<Rightarrow> held \<Rightarrow> event list \<Rightarrow> bool" where
  "guarded ob h [] = True"
| "guarded ob h (Lock ob' # es) = guarded ob (if ob' = ob then WriteHeld else h) es"
| "guarded ob h (RLock ob' # es) = guarded ob (if ob' = ob then ReadHeld else h) es"
| "guarded ob h (Unlock ob' # es) = guarded ob (if ob' = ob then Unheld else h) es"
| "guarded ob h (RUnlock ob' # es) = guarded ob (if ob' = ob then Unheld else h) es"
| "guarded ob h (MapRead ob' # es) =
     (if ob' = ob then h \<noteq> Unheld \<and> guarded ob h es else guarded ob h es)"
| "guarded ob h (MapWrite ob' # es) =
     (if ob' = ob then h = WriteHeld \<and> guarded ob h es else guarded ob h es)"

text \<open>
  The methods of \<open>MemoryUserRepository\<close> take \<open>r.mutex\<close> first and release it on
  return.
\<close>

definition MemoryUserRepository_GetByID_events ::
  "MemoryUserRepository \<Rightarrow> string \<Rightarrow> event list" where
  "MemoryUserRepository_GetByID_events r i =
     [RLock UserRepository, MapRead UserRepository, RUnlock UserRepository]"

definition MemoryUserRepository_GetByEmail_events ::
  "MemoryUserRepository \<Rightarrow> string \<Rightarrow> event list" where
  "MemoryUserRepository_GetByEmail_events r email =
     [RLock UserRepository, MapRead UserRepository, RUnlock UserRepository]"

definition MemoryUserRepository_Create_events ::
  "MemoryUserRepository \<Rightarrow> User \<Rightarrow> event list" where
  "MemoryUserRepository_Create_events r user =
     [Lock UserRepository, MapRead UserRepository]
     @ (if users r (User_ID user) \<noteq> None then []
        else MapRead UserRepository
             # (if byEmail r (User_Email user) \<noteq> None then []
                else [MapWrite UserRepository, MapWrite UserRepository]))
     @ [Unlock UserRepository]"

definition MemoryUserRepository_Update_events ::
  "MemoryUserRepository \<Rightarrow> User \<Rightarrow> event list" where
  "MemoryUserRepository_Update_events r user =
     [Lock UserRepository, MapRead UserRepository]
     @ (case users r (User_ID user) of
          None \<Rightarrow> []
        | Some existingUser \<Rightarrow>
            if User_Email existingUser \<noteq> User_Email user
            then MapRead UserRepository
                 # (if byEmail r (User_Email user) \<noteq> None then []
                    else [MapWrite UserRepository, MapWrite UserRepository,
                          MapWrite UserRepository])
            else [MapWrite UserRepository, MapWrite UserRepository])
     @ [Unlock UserRepository]"

definition MemoryUserRepository_Delete_events ::
  "MemoryUserRepository \<Rightarrow> string \<Rightarrow> event list" where
  "MemoryUserRepository_Delete_events r i =
     [Lock UserRepository, MapRead UserRepository]
     @ (case users r i of
          None \<Rightarrow> []
        | Some user \<Rightarrow> [MapWrite UserRepository, MapWrite UserRepository])
     @ [Unlock UserRepository]"

text \<open>
  \<open>AuthServiceImpl\<close> has the fields \<open>userRepo\<close>, \<open>sessions\<close> and
  \<open>traceIDGenerator\<close>, no mutex; its methods index, assign and delete in
  \<open>s.sessions\<close> directly. \<open>VerifySession\<close> calls \<open>GetByID\<close> of the user
  repository between its accesses.
\<close>

definition VerifySession_events ::
  "AuthServiceImpl \<Rightarrow> string \<Rightarrow> time \<Rightarrow> event list" where
  "VerifySession_events s sessionToken nowCheck =
     MapRead SessionRegistry
     # (case sessions s sessionToken of
          None \<Rightarrow> []
        | Some session \<Rightarrow>
            if expiresAt session < nowCheck then [MapWrite SessionRegistry]
            else MemoryUserRepository_GetByID_events (userRepo s) (userID session)
                 @ (case MemoryUserRepository_GetByID (userRepo s) (userID session) of
                      Inl err \<Rightarrow> []
                    | Inr user \<Rightarrow> [MapWrite SessionRegistry]))"

definition GenerateSessionToken_events :: "AuthServiceImpl \<Rightarrow> User \<Rightarrow> event list" where
  "GenerateSessionToken_events s user = [MapWrite SessionRegistry]"

definition InvalidateSession_events :: "AuthServiceImpl \<Rightarrow> string \<Rightarrow> event list" where
  "InvalidateSession_events s sessionToken =
     MapRead SessionRegistry
     # (case sessions s sessionToken of
          None \<Rightarrow> []
        | Some session \<Rightarrow> [MapWrite SessionRegistry])"

section \<open>Concrete states used to run the model\<close>

definition alice :: User where
  "alice = NewUser ''1-1'' ''alice@example.com'' ''Alice'' 5"

definition bob :: User where
  "bob = NewUser ''2-2'' ''bob@example.com'' ''Bob'' 6"

definition seeded :: MemoryUserRepository where
  "seeded = NewMemoryUserRepository ''0-0'' 1"

definition two_users :: MemoryUserRepository where
  "two_users = snd (MemoryUserRepository_Create
                 (snd (MemoryUserRepository_Create seeded alice)) bob)"

definition test_user :: User where
  "test_user = (NewUser ''0-0'' ''test@untie.me'' ''Test User'' 1)\<lparr>User_Role := ''admin''\<rparr>"

definition nil_slice :: slice where
  "nil_slice = \<lparr>array = 0, len = 0\<rparr>"

definition login_feature :: Feature where
  "login_feature = \<lparr>Feature_ID = ''f1'', Feature_Name = ''Login'',
                     Feature_Description = ''sign in'', Feature_Versions = nil_slice\<rparr>"

definition heap0 :: Heap where
  "heap0 = \<lparr>stringArrays = (\<lambda>_. [])(2 := [''React'']),
             featureImplArrays = (\<lambda>_. []),
             featureArrays = (\<lambda>_. [])(1 := [login_feature])\<rparr>"

definition alpha :: Project where
  "alpha = \<lparr>Project_ID = ''p1'', Project_Name = ''Alpha'', Project_Description = ''first'',
             Project_CreatedAt = 0, Project_UpdatedAt = 0, Project_UserID = ''1-1'',
             Project_TechStack =
               \<lparr>Frontend = \<lparr>array = 2, len = 1\<rparr>, Backend = nil_slice,
                Database = nil_slice, Hosting = nil_slice, CI = nil_slice,
                Other = nil_slice\<rparr>,
             Project_Features = \<lparr>array = 1, len = 1\<rparr>\<rparr>"

definition alpha_repo :: MemoryProjectRepository where
  "alpha_repo = snd (CreateProject NewMemoryProjectRepository alpha 10)"

definition alice_session :: AuthServiceImpl where
  "alice_session = snd (GenerateSessionToken (NewAuthService two_users) alice 1000 1000 1000)"

section \<open>The concrete states, evaluated\<close>

lemma itoa_1000: "itoa 1000 = ''1000''"
  by code_simp

lemma UnixNano_1000: "UnixNano 1000 = 1000"
  by (simp add: UnixNano_def)

lemma seeded_simps:
  "users seeded = [''0-0'' \<mapsto> test_user]"
  "byEmail seeded = [''test@untie.me'' \<mapsto> test_user]"
  by (simp_all add: seeded_def NewMemoryUserRepository_def MemoryUserRepository_Create_def
      test_user_def NewUser_def)

lemma two_users_simps:
  "users two_users = [''0-0'' \<mapsto> test_user, ''1-1'' \<mapsto> alice, ''2-2'' \<mapsto> bob]"
  "byEmail two_users = [''test@untie.me'' \<mapsto> test_user, ''alice@example.com'' \<mapsto> alice,
      ''bob@example.com'' \<mapsto> bob]"
  by (simp_all add: two_users_def MemoryUserRepository_Create_def seeded_simps
      alice_def bob_def NewUser_def)

lemma alice_session_simps:
  "userRepo alice_session = two_users"
  "sessions alice_session = [''session-1000-1-1'' \<mapsto>
      \<lparr>userID = ''1-1'', expiresAt = 1000 + 24 * Hour, lastActive = 1000\<rparr>]"
  by (simp_all add: alice_session_def GenerateSessionToken_def Let_def itoa_1000 UnixNano_1000
      NewAuthService_def alice_def NewUser_def)

lemma alpha_repo_simps:
  "projects alpha_repo = [''p1'' \<mapsto> alpha\<lparr>Project_CreatedAt := 10, Project_UpdatedAt := 10\<rparr>]"
  by (simp add: alpha_repo_def CreateProject_def MemoryProjectRepository_Create_def Let_def
      NewMemoryProjectRepository_def alpha_def)

section \<open>The user repository keeps its two indexes together\<close>

text \<open>
  C8. \<open>MemoryUserRepository.Update\<close>: when the record's email differs from the stored
  one and the new email is already indexed for another user, the call fails with
  \<open>ErrEmailAlreadyExists\<close> and the repository (both maps) is returned as it was. When
  the call succeeds with a changed email, the old email has left the email index, and the
  identifier and the new email both map to the updated record.
\<close>

theorem Update_email_all_or_nothing:
  "(users r (User_ID u) = Some old \<and> User_Email old \<noteq> User_Email u
      \<and> byEmail r (User_Email u) = Some other \<and> User_ID other \<noteq> User_ID u
     \<longrightarrow> MemoryUserRepository_Update r u = (Some ErrEmailAlreadyExists, r))
   \<and> (users r (User_ID u) = Some old \<and> User_Email old \<noteq> User_Email u
      \<and> MemoryUserRepository_Update r u = (None, r')
     \<longrightarrow> byEmail r' (User_Email old) = None
         \<and> users r' (User_ID u) = Some u \<and> byEmail r' (User_Email u) = Some u)"
proof (intro conjI impI)
  assume "users r (User_ID u) = Some old \<and> User_Email old \<noteq> User_Email u
      \<and> byEmail r (User_Email u) = Some other \<and> User_ID other \<noteq> User_ID u"
  then show "MemoryUserRepository_Update r u = (Some ErrEmailAlreadyExists, r)"
    by (simp add: MemoryUserRepository_Update_def)
next
  assume a: "users r (User_ID u) = Some old \<and> User_Email old \<noteq> User_Email u
      \<and> MemoryUserRepository_Update r u = (None, r')"
  then have free: "byEmail r (User_Email u) = None"
    by (auto simp: MemoryUserRepository_Update_def split: if_splits)
  with a have r': "r' = r\<lparr>users := (users r)(User_ID u \<mapsto> u),
                           byEmail := ((byEmail r)(User_Email old := None))(User_Email u \<mapsto> u)\<rparr>"
    by (auto simp: MemoryUserRepository_Update_def)
  from a show "byEmail r' (User_Email old) = None" by (simp add: r')
  show "users r' (User_ID u) = Some u" by (simp add: r')
  show "byEmail r' (User_Email u) = Some u" by (simp add: r')
qed

theorem Update_email_all_or_nothing_witness:
  "users two_users (User_ID (alice\<lparr>User_Email := ''bob@example.com''\<rparr>)) = Some alice
   \<and> User_Email alice \<noteq> ''bob@example.com''
   \<and> byEmail two_users ''bob@example.com'' = Some bob \<and> User_ID bob \<noteq> User_ID alice
   \<and> MemoryUserRepository_Update two_users (alice\<lparr>User_Email := ''bob@example.com''\<rparr>)
       = (Some ErrEmailAlreadyExists, two_users)
   \<and> fst (MemoryUserRepository_Update two_users (alice\<lparr>User_Email := ''al@example.com''\<rparr>))
       = None
   \<and> byEmail (snd (MemoryUserRepository_Update two_users
          (alice\<lparr>User_Email := ''al@example.com''\<rparr>))) ''alice@example.com'' = None
   \<and> users (snd (MemoryUserRepository_Update two_users
          (alice\<lparr>User_Email := ''al@example.com''\<rparr>))) ''1-1''
       = Some (alice\<lparr>User_Email := ''al@example.com''\<rparr>)
   \<and> byEmail (snd (MemoryUserRepository_Update two_users
          (alice\<lparr>User_Email := ''al@example.com''\<rparr>))) ''al@example.com''
       = Some (alice\<lparr>User_Email := ''al@example.com''\<rparr>)"
proof -
  let ?dup = "alice\<lparr>User_Email := ''bob@example.com''\<rparr>"
  let ?new = "alice\<lparr>User_Email := ''al@example.com''\<rparr>"
  have ids: "User_ID ?dup = ''1-1''" "User_ID ?new = ''1-1''" "User_ID alice = ''1-1''"
    "User_ID bob = ''2-2''" "User_Email alice = ''alice@example.com''"
    by (simp_all add: alice_def bob_def NewUser_def)
  have ok: "MemoryUserRepository_Update two_users ?new
            = (None, snd (MemoryUserRepository_Update two_users ?new))"
    by (simp add: MemoryUserRepository_Update_def two_users_simps ids)
  have okf: "fst (MemoryUserRepository_Update two_users ?new) = None"
    by (simp add: MemoryUserRepository_Update_def two_users_simps ids)
  show ?thesis
    using Update_email_all_or_nothing [of two_users ?dup alice bob two_users]
      Update_email_all_or_nothing [of two_users ?new alice bob
        "snd (MemoryUserRepository_Update two_users ?new)"] ok okf
    by (simp add: two_users_simps ids)
qed

section \<open>Ownership is checked before the store is touched\<close>

text \<open>
  C1. A project is stored with owner A and the caller's resolved identity B differs from
  A: \<open>APIUpdateProject\<close> and \<open>APIDeleteProject\<close> both answer 403 (Forbidden), and the
  repository they return is the repository they were given.
\<close>

theorem forbidden_update_delete_leave_store:
  assumes "projects r i = Some p"
    and "Project_UserID p \<noteq> User_ID caller"
  shows "APIUpdateProject r i caller updateData now
           = (JSON 403 (ErrorBody ''You do not have permission to update this project''), r)
         \<and> APIDeleteProject r i caller
           = (JSON 403 (ErrorBody ''You do not have permission to delete this project''), r)"
  using assms
  by (simp add: APIUpdateProject_def APIDeleteProject_def GetProject_def
      MemoryProjectRepository_GetByID_def)

theorem forbidden_update_delete_leave_store_witness:
  "projects alpha_repo ''p1''
     = Some (alpha\<lparr>Project_CreatedAt := 10, Project_UpdatedAt := 10\<rparr>)
   \<and> Project_UserID (alpha\<lparr>Project_CreatedAt := 10, Project_UpdatedAt := 10\<rparr>) \<noteq> User_ID bob
   \<and> APIUpdateProject alpha_repo ''p1'' bob (Some (''Hacked Project'', ''x'')) 20
       = (JSON 403 (ErrorBody ''You do not have permission to update this project''), alpha_repo)
   \<and> APIDeleteProject alpha_repo ''p1'' bob
       = (JSON 403 (ErrorBody ''You do not have permission to delete this project''), alpha_repo)"
proof -
  have h1: "projects alpha_repo ''p1''
              = Some (alpha\<lparr>Project_CreatedAt := 10, Project_UpdatedAt := 10\<rparr>)"
    by (simp add: alpha_repo_simps)
  have h2: "Project_UserID (alpha\<lparr>Project_CreatedAt := 10, Project_UpdatedAt := 10\<rparr>)
              \<noteq> User_ID bob"
    by (simp add: alpha_def bob_def NewUser_def)
  show ?thesis
    using forbidden_update_delete_leave_store [OF h1 h2, of "Some (''Hacked Project'', ''x'')" 20]
      h1 h2
    by simp
qed

section \<open>What an update does to the owner\<close>

text \<open>
  The stored project is owned by \<open>1-1\<close>; the service is handed the same project with
  owner \<open>2-2\<close>; the update succeeds and the stored owner is \<open>2-2\<close>.
\<close>

theorem UpdateProject_owner_counterexample:
  "map_option Project_UserID (projects alpha_repo ''p1'') = Some ''1-1''
   \<and> fst (fst (UpdateProject alpha_repo (alpha\<lparr>Project_UserID := ''2-2''\<rparr>) 20)) = None
   \<and> map_option Project_UserID
        (projects (snd (UpdateProject alpha_repo (alpha\<lparr>Project_UserID := ''2-2''\<rparr>) 20)) ''p1'')
       = Some ''2-2''"
  by (simp add: UpdateProject_def MemoryProjectRepository_GetByID_def
      MemoryProjectRepository_Update_def alpha_repo_simps alpha_def Let_def)

text \<open>
  C4, as amended. A successful \<open>UpdateProject\<close> (the identifier is stored, the name is
  not empty) replaces the stored record by the supplied one, with only the creation time
  taken from the stored record and the update time from the clock: the stored owner
  afterwards is the owner the supplied record carries.
\<close>

theorem UpdateProject_stores_supplied_record:
  assumes "projects r (Project_ID project) = Some existing"
    and "Project_Name project \<noteq> []"
  shows "UpdateProject r project now
           = ((None, project\<lparr>Project_CreatedAt := Project_CreatedAt existing,
                             Project_UpdatedAt := now\<rparr>),
              r\<lparr>projects := (projects r)(Project_ID project \<mapsto>
                   project\<lparr>Project_CreatedAt := Project_CreatedAt existing,
                           Project_UpdatedAt := now\<rparr>)\<rparr>)
         \<and> map_option Project_UserID
               (projects (snd (UpdateProject r project now)) (Project_ID project))
             = Some (Project_UserID project)"
  using assms
  by (simp add: UpdateProject_def MemoryProjectRepository_GetByID_def
      MemoryProjectRepository_Update_def Let_def)

theorem UpdateProject_stores_supplied_record_witness:
  "projects alpha_repo (Project_ID (alpha\<lparr>Project_UserID := ''2-2''\<rparr>))
     = Some (alpha\<lparr>Project_CreatedAt := 10, Project_UpdatedAt := 10\<rparr>)
   \<and> Project_Name (alpha\<lparr>Project_UserID := ''2-2''\<rparr>) \<noteq> []
   \<and> map_option Project_UserID
        (projects (snd (UpdateProject alpha_repo (alpha\<lparr>Project_UserID := ''2-2''\<rparr>) 20))
           (Project_ID (alpha\<lparr>Project_UserID := ''2-2''\<rparr>)))
       = Some ''2-2''"
proof -
  have h1: "projects alpha_repo (Project_ID (alpha\<lparr>Project_UserID := ''2-2''\<rparr>))
              = Some (alpha\<lparr>Project_CreatedAt := 10, Project_UpdatedAt := 10\<rparr>)"
    by (simp add: alpha_repo_simps alpha_def)
  have h2: "Project_Name (alpha\<lparr>Project_UserID := ''2-2''\<rparr>) \<noteq> []"
    by (simp add: alpha_def)
  show ?thesis
    using UpdateProject_stores_supplied_record [OF h1 h2, of 20] h1 h2
    by simp
qed

section \<open>Authentication\<close>

text \<open>
  With the development account in the repository, \<open>test@untie.me\<close> is authenticated
  with a wrong password and with the empty password, while the same wrong password is
  refused for another account.
\<close>

theorem Authenticate_bypass_counterexample:
  "fst (Authenticate (NewAuthService two_users) ''test@untie.me'' ''wrong-password'' 7)
     = Inr (test_user\<lparr>User_LastLogin := 7\<rparr>)
   \<and> fst (Authenticate (NewAuthService two_users) ''test@untie.me'' [] 7)
     = Inr (test_user\<lparr>User_LastLogin := 7\<rparr>)
   \<and> fst (Authenticate (NewAuthService two_users) ''alice@example.com'' ''wrong-password'' 7)
     = Inl ErrInvalidCredentials"
  by (simp add: Authenticate_def MemoryUserRepository_GetByEmail_def
      NewAuthService_def two_users_simps Let_def)

text \<open>
  C2, as amended. \<open>Authenticate\<close> fails with the one error \<open>ErrInvalidCredentials\<close>,
  leaving the state as it was, both when no user holds the email and when a user holds
  it, the email is not \<open>test@untie.me\<close> and the password is not the accepted
  \<open>test-password\<close>. When a user holds the email \<open>test@untie.me\<close>, authentication of
  that email succeeds for every password.
\<close>

theorem Authenticate_outcomes:
  "(byEmail (userRepo s) email = None
      \<longrightarrow> Authenticate s email password now = (Inl ErrInvalidCredentials, s))
   \<and> (byEmail (userRepo s) email = Some u \<and> email \<noteq> ''test@untie.me''
        \<and> password \<noteq> ''test-password''
      \<longrightarrow> Authenticate s email password now = (Inl ErrInvalidCredentials, s))
   \<and> (byEmail (userRepo s) ''test@untie.me'' = Some u
      \<longrightarrow> fst (Authenticate s ''test@untie.me'' password now)
            = Inr (u\<lparr>User_LastLogin := now\<rparr>))"
proof (intro conjI impI)
  assume "byEmail (userRepo s) email = None"
  then have "MemoryUserRepository_GetByEmail (userRepo s) email = Inl ErrUserNotFound"
    by (simp add: MemoryUserRepository_GetByEmail_def)
  then show "Authenticate s email password now = (Inl ErrInvalidCredentials, s)"
    by (simp add: Authenticate_def)
next
  assume "byEmail (userRepo s) email = Some u \<and> email \<noteq> ''test@untie.me''
        \<and> password \<noteq> ''test-password''"
  moreover from this have "MemoryUserRepository_GetByEmail (userRepo s) email = Inr u"
    by (simp add: MemoryUserRepository_GetByEmail_def)
  ultimately show "Authenticate s email password now = (Inl ErrInvalidCredentials, s)"
    by (simp add: Authenticate_def)
next
  assume "byEmail (userRepo s) ''test@untie.me'' = Some u"
  then have "MemoryUserRepository_GetByEmail (userRepo s) ''test@untie.me'' = Inr u"
    by (simp add: MemoryUserRepository_GetByEmail_def)
  then show "fst (Authenticate s ''test@untie.me'' password now) = Inr (u\<lparr>User_LastLogin := now\<rparr>)"
    by (simp add: Authenticate_def Let_def)
qed

theorem Authenticate_outcomes_witness:
  "byEmail (userRepo (NewAuthService two_users)) ''nobody@example.com'' = None
   \<and> Authenticate (NewAuthService two_users) ''nobody@example.com'' ''secret'' 7
       = (Inl ErrInvalidCredentials, NewAuthService two_users)
   \<and> byEmail (userRepo (NewAuthService two_users)) ''alice@example.com'' = Some alice
   \<and> Authenticate (NewAuthService two_users) ''alice@example.com'' ''secret'' 7
       = (Inl ErrInvalidCredentials, NewAuthService two_users)
   \<and> byEmail (userRepo (NewAuthService two_users)) ''test@untie.me'' = Some test_user
   \<and> fst (Authenticate (NewAuthService two_users) ''test@untie.me'' ''secret'' 7)
       = Inr (test_user\<lparr>User_LastLogin := 7\<rparr>)"
  using Authenticate_outcomes [of "NewAuthService two_users" "''nobody@example.com''"
      "''secret''" 7 test_user]
    Authenticate_outcomes [of "NewAuthService two_users" "''alice@example.com''"
      "''secret''" 7 alice]
  by (simp add: NewAuthService_def two_users_simps)

section \<open>Verifying a session\<close>

text \<open>
  A session that expires at the instant \<open>1000 + 24 h\<close> is verified at exactly that
  instant: the call succeeds and the entry stays, with \<open>lastActive\<close> updated.
\<close>

theorem VerifySession_at_expiry_counterexample:
  "map_option expiresAt (sessions alice_session ''session-1000-1-1'') = Some (1000 + 24 * Hour)
   \<and> fst (VerifySession alice_session ''session-1000-1-1'' (1000 + 24 * Hour) (1000 + 24 * Hour))
       = Inr alice
   \<and> sessions (snd (VerifySession alice_session ''session-1000-1-1''
                      (1000 + 24 * Hour) (1000 + 24 * Hour))) ''session-1000-1-1''
       = Some \<lparr>userID = ''1-1'', expiresAt = 1000 + 24 * Hour, lastActive = 1000 + 24 * Hour\<rparr>"
  by (simp add: VerifySession_def MemoryUserRepository_GetByID_def alice_session_simps
      two_users_simps)

text \<open>
  C6, as amended. When the stored expiry is strictly before the current time,
  \<open>VerifySession\<close> fails with \<open>session expired\<close> and removes the entry, and every
  later verification of the token fails with \<open>invalid session\<close>. When the current time
  is at or before the expiry (the expiry instant included) and the owner of the session is
  in the user repository, the call returns that user and sets \<open>lastActive\<close> to the
  clock.
\<close>

theorem VerifySession_expiry:
  "(sessions s token = Some session \<and> expiresAt session < nowCheck
      \<longrightarrow> VerifySession s token nowCheck nowActive
            = (Inl (ErrNew ''session expired''), s\<lparr>sessions := (sessions s)(token := None)\<rparr>)
          \<and> VerifySession (snd (VerifySession s token nowCheck nowActive)) token later later'
            = (Inl (ErrNew ''invalid session''), s\<lparr>sessions := (sessions s)(token := None)\<rparr>))
   \<and> (sessions s token = Some session \<and> nowCheck \<le> expiresAt session
        \<and> users (userRepo s) (userID session) = Some user
      \<longrightarrow> VerifySession s token nowCheck nowActive
            = (Inr user,
               s\<lparr>sessions := (sessions s)(token \<mapsto> session\<lparr>lastActive := nowActive\<rparr>)\<rparr>))"
proof (intro conjI impI)
  assume expired: "sessions s token = Some session \<and> expiresAt session < nowCheck"
  then show first: "VerifySession s token nowCheck nowActive
      = (Inl (ErrNew ''session expired''), s\<lparr>sessions := (sessions s)(token := None)\<rparr>)"
    by (simp add: VerifySession_def)
  have "sessions (s\<lparr>sessions := (sessions s)(token := None)\<rparr>) token = None"
    by simp
  then have "VerifySession (s\<lparr>sessions := (sessions s)(token := None)\<rparr>) token later later'
      = (Inl (ErrNew ''invalid session''), s\<lparr>sessions := (sessions s)(token := None)\<rparr>)"
    by (simp add: VerifySession_def)
  then show "VerifySession (snd (VerifySession s token nowCheck nowActive)) token later later'
      = (Inl (ErrNew ''invalid session''), s\<lparr>sessions := (sessions s)(token := None)\<rparr>)"
    by (simp add: first)
next
  assume live: "sessions s token = Some session \<and> nowCheck \<le> expiresAt session
        \<and> users (userRepo s) (userID session) = Some user"
  then have "MemoryUserRepository_GetByID (userRepo s) (userID session) = Inr user"
    by (simp add: MemoryUserRepository_GetByID_def)
  with live show "VerifySession s token nowCheck nowActive
      = (Inr user, s\<lparr>sessions := (sessions s)(token \<mapsto> session\<lparr>lastActive := nowActive\<rparr>)\<rparr>)"
    by (simp add: VerifySession_def)
qed

theorem VerifySession_expiry_witness:
  "sessions alice_session ''session-1000-1-1''
     = Some \<lparr>userID = ''1-1'', expiresAt = 1000 + 24 * Hour, lastActive = 1000\<rparr>
   \<and> 1000 + 24 * Hour < 1001 + 24 * Hour
   \<and> fst (VerifySession alice_session ''session-1000-1-1'' (1001 + 24 * Hour) (1001 + 24 * Hour))
       = Inl (ErrNew ''session expired'')
   \<and> sessions (snd (VerifySession alice_session ''session-1000-1-1''
                      (1001 + 24 * Hour) (1001 + 24 * Hour))) ''session-1000-1-1'' = None
   \<and> fst (VerifySession (snd (VerifySession alice_session ''session-1000-1-1''
                      (1001 + 24 * Hour) (1001 + 24 * Hour))) ''session-1000-1-1'' 0 0)
       = Inl (ErrNew ''invalid session'')
   \<and> (2000 :: int) \<le> 1000 + 24 * Hour
   \<and> users (userRepo alice_session) ''1-1'' = Some alice
   \<and> fst (VerifySession alice_session ''session-1000-1-1'' 2000 2001) = Inr alice
   \<and> sessions (snd (VerifySession alice_session ''session-1000-1-1'' 2000 2001))
        ''session-1000-1-1''
       = Some \<lparr>userID = ''1-1'', expiresAt = 1000 + 24 * Hour, lastActive = 2001\<rparr>"
  using VerifySession_expiry [of alice_session "''session-1000-1-1''"
      "\<lparr>userID = ''1-1'', expiresAt = 1000 + 24 * Hour, lastActive = 1000\<rparr>"
      "1001 + 24 * Hour" "1001 + 24 * Hour" 0 0 alice]
    VerifySession_expiry [of alice_session "''session-1000-1-1''"
      "\<lparr>userID = ''1-1'', expiresAt = 1000 + 24 * Hour, lastActive = 1000\<rparr>"
      2000 2001 0 0 alice]
  by (simp add: alice_session_simps two_users_simps Hour_def VerifySession_def
      MemoryUserRepository_GetByID_def)

text \<open>
  C9. For a session that is present and not expired: once its user has been deleted from
  the repository, \<open>VerifySession\<close> fails with \<open>ErrUserNotFound\<close>; while the user is
  stored, it returns the record the repository holds now.
\<close>

theorem VerifySession_reads_user_fresh:
  assumes "sessions s token = Some session"
    and "nowCheck \<le> expiresAt session"
  shows "(MemoryUserRepository_Delete (userRepo s) (userID session) = (None, r')
            \<longrightarrow> VerifySession (s\<lparr>userRepo := r'\<rparr>) token nowCheck nowActive
                  = (Inl ErrUserNotFound, s\<lparr>userRepo := r'\<rparr>))
         \<and> (users (userRepo s) (userID session) = Some user
            \<longrightarrow> fst (VerifySession s token nowCheck nowActive) = Inr user)"
  using assms
  by (auto simp: VerifySession_def MemoryUserRepository_GetByID_def
      MemoryUserRepository_Delete_def split: option.splits)

theorem VerifySession_reads_user_fresh_witness:
  "sessions alice_session ''session-1000-1-1''
     = Some \<lparr>userID = ''1-1'', expiresAt = 1000 + 24 * Hour, lastActive = 1000\<rparr>
   \<and> (2000 :: int) \<le> 1000 + 24 * Hour
   \<and> fst (MemoryUserRepository_Delete (userRepo alice_session) ''1-1'') = None
   \<and> fst (VerifySession
            (alice_session\<lparr>userRepo :=
               snd (MemoryUserRepository_Delete (userRepo alice_session) ''1-1'')\<rparr>)
            ''session-1000-1-1'' 2000 2001) = Inl ErrUserNotFound
   \<and> users (userRepo alice_session) ''1-1'' = Some alice
   \<and> fst (VerifySession alice_session ''session-1000-1-1'' 2000 2001) = Inr alice
   \<and> fst (MemoryUserRepository_Update (userRepo alice_session)
            (alice\<lparr>User_Name := ''Alice B''\<rparr>)) = None
   \<and> fst (VerifySession
            (alice_session\<lparr>userRepo :=
               snd (MemoryUserRepository_Update (userRepo alice_session)
                      (alice\<lparr>User_Name := ''Alice B''\<rparr>))\<rparr>)
            ''session-1000-1-1'' 2000 2001) = Inr (alice\<lparr>User_Name := ''Alice B''\<rparr>)"
proof -
  let ?sd = "\<lparr>userID = ''1-1'', expiresAt = 1000 + 24 * Hour, lastActive = 1000\<rparr>"
  let ?del = "snd (MemoryUserRepository_Delete (userRepo alice_session) ''1-1'')"
  let ?upd = "snd (MemoryUserRepository_Update (userRepo alice_session)
                     (alice\<lparr>User_Name := ''Alice B''\<rparr>))"
  have h1: "sessions alice_session ''session-1000-1-1'' = Some ?sd"
    by (simp add: alice_session_simps)
  have h2: "2000 \<le> expiresAt ?sd"
    by (simp add: Hour_def)
  have h3: "sessions (alice_session\<lparr>userRepo := ?upd\<rparr>) ''session-1000-1-1'' = Some ?sd"
    by (simp add: alice_session_simps)
  have ids: "User_ID alice = ''1-1''" "User_Email alice = ''alice@example.com''"
    by (simp_all add: alice_def NewUser_def)
  have d: "MemoryUserRepository_Delete (userRepo alice_session) (userID ?sd) = (None, ?del)"
    by (simp add: MemoryUserRepository_Delete_def alice_session_simps two_users_simps)
  have df: "fst (MemoryUserRepository_Delete (userRepo alice_session) ''1-1'') = None"
    by (simp add: MemoryUserRepository_Delete_def alice_session_simps two_users_simps)
  have u: "fst (MemoryUserRepository_Update (userRepo alice_session)
                  (alice\<lparr>User_Name := ''Alice B''\<rparr>)) = None"
    "users ?upd ''1-1'' = Some (alice\<lparr>User_Name := ''Alice B''\<rparr>)"
    by (simp_all add: MemoryUserRepository_Update_def alice_session_simps two_users_simps ids)
  show ?thesis
    using VerifySession_reads_user_fresh [OF h1 h2, of ?del 2001 alice]
      VerifySession_reads_user_fresh [OF h3 h2, of ?del 2001 "alice\<lparr>User_Name := ''Alice B''\<rparr>"]
      h1 h2 d df u
    by (simp add: alice_session_simps two_users_simps Hour_def)
qed

section \<open>Login, the session cookie and the expiry of a session\<close>

lemma TrimSpace_examples:
  "TrimSpace ''alice@example.com'' = ''alice@example.com''"
  "TrimSpace ''test@untie.me'' = ''test@untie.me''"
  "TrimSpace ''test-password'' = ''test-password''"
  "TrimSpace ''any-password'' = ''any-password''"
  by code_simp+

lemma GenerateSessionToken_alice_1000:
  "GenerateSessionToken s (alice\<lparr>User_LastLogin := l\<rparr>) 1000 e a
     = ((''session-1000-1-1'', None),
        s\<lparr>sessions := (sessions s)(''session-1000-1-1'' \<mapsto>
             \<lparr>userID = ''1-1'', expiresAt = e + 24 * Hour, lastActive = a\<rparr>)\<rparr>)"
  by (simp add: GenerateSessionToken_def Let_def itoa_1000 UnixNano_1000 alice_def NewUser_def)

lemma GenerateSessionToken_test_user_1000:
  "GenerateSessionToken s (test_user\<lparr>User_LastLogin := l\<rparr>) 1000 e a
     = ((''session-1000-0-0'', None),
        s\<lparr>sessions := (sessions s)(''session-1000-0-0'' \<mapsto>
             \<lparr>userID = ''0-0'', expiresAt = e + 24 * Hour, lastActive = a\<rparr>)\<rparr>)"
  by (simp add: GenerateSessionToken_def Let_def itoa_1000 UnixNano_1000 test_user_def NewUser_def)

lemma test_user_fields:
  "User_ID test_user = ''0-0''" "User_Email test_user = ''test@untie.me''"
  by (simp_all add: test_user_def NewUser_def)

text \<open>
  The same login, once with the remember-me box ticked and once without: the session
  stored expires at the same instant, 24 hours after the clock.
\<close>

theorem Login_rememberMe_counterexample:
  "map_option expiresAt
     (sessions (snd (Login (NewAuthService two_users)
        \<lparr>form_email = ''alice@example.com'', form_password = ''test-password'',
         form_remember_me = ''on''\<rparr> 900 1000 1000 1000)) ''session-1000-1-1'')
     = Some (1000 + 24 * Hour)
   \<and> map_option expiresAt
     (sessions (snd (Login (NewAuthService two_users)
        \<lparr>form_email = ''alice@example.com'', form_password = ''test-password'',
         form_remember_me = []\<rparr> 900 1000 1000 1000)) ''session-1000-1-1'')
     = Some (1000 + 24 * Hour)"
  by (simp add: Login_def Let_def TrimSpace_examples Authenticate_def
      MemoryUserRepository_GetByEmail_def NewAuthService_def two_users_simps
      GenerateSessionToken_alice_1000)

text \<open>
  C7, as amended. \<open>GenerateSessionToken\<close> takes no remember-me flag: the entry it
  stores under the token it returns has the user's identifier, expiry 24 hours after the
  clock and \<open>lastActive\<close> the clock. At a successful login the flag only selects the
  age of the cookie, 3600 seconds without it and 7 days with it; the state after the
  login is the state \<open>GenerateSessionToken\<close> leaves.
\<close>

theorem session_expiry_ignores_rememberMe:
  "sessions (snd (GenerateSessionToken s user nowToken nowExpiry nowActive))
       (fst (fst (GenerateSessionToken s user nowToken nowExpiry nowActive)))
     = Some \<lparr>userID = User_ID user, expiresAt = nowExpiry + 24 * Hour, lastActive = nowActive\<rparr>
   \<and> (TrimSpace (form_email form) \<noteq> [] \<and> TrimSpace (form_password form) \<noteq> []
        \<and> Authenticate s (form_email form) (form_password form) nowLogin = (Inr user, s1)
      \<longrightarrow> Login s form nowLogin nowToken nowExpiry nowActive
            = ((Redirect 303 ''/'',
                [\<lparr>Cookie_name = ''session'',
                  Cookie_value = fst (fst (GenerateSessionToken s1 user nowToken nowExpiry nowActive)),
                  Cookie_maxAge = (if form_remember_me form \<noteq> [] then 604800 else 3600),
                  Cookie_path = ''/'', Cookie_domain = [], Cookie_secure = False,
                  Cookie_httpOnly = True\<rparr>]),
               snd (GenerateSessionToken s1 user nowToken nowExpiry nowActive)))"
  by (simp add: Login_def Let_def GenerateSessionToken_def)


theorem session_expiry_ignores_rememberMe_witness:
  "TrimSpace ''alice@example.com'' \<noteq> [] \<and> TrimSpace ''test-password'' \<noteq> []
   \<and> fst (Authenticate (NewAuthService two_users) ''alice@example.com'' ''test-password'' 900)
       = Inr (alice\<lparr>User_LastLogin := 900\<rparr>)
   \<and> fst (Login (NewAuthService two_users)
          \<lparr>form_email = ''alice@example.com'', form_password = ''test-password'',
           form_remember_me = ''on''\<rparr> 900 1000 1000 1000)
       = (Redirect 303 ''/'',
          [\<lparr>Cookie_name = ''session'', Cookie_value = ''session-1000-1-1'',
            Cookie_maxAge = 604800, Cookie_path = ''/'', Cookie_domain = [],
            Cookie_secure = False, Cookie_httpOnly = True\<rparr>])
   \<and> sessions (snd (Login (NewAuthService two_users)
          \<lparr>form_email = ''alice@example.com'', form_password = ''test-password'',
           form_remember_me = ''on''\<rparr> 900 1000 1000 1000)) ''session-1000-1-1''
       = Some \<lparr>userID = ''1-1'', expiresAt = 1000 + 24 * Hour, lastActive = 1000\<rparr>"
proof -
  let ?s = "NewAuthService two_users"
  let ?form = "\<lparr>form_email = ''alice@example.com'', form_password = ''test-password'',
                form_remember_me = ''on''\<rparr>"
  let ?s1 = "snd (Authenticate ?s ''alice@example.com'' ''test-password'' 900)"
  have a: "Authenticate ?s (form_email ?form) (form_password ?form) 900
             = (Inr (alice\<lparr>User_LastLogin := 900\<rparr>), ?s1)"
    by (simp add: Authenticate_def MemoryUserRepository_GetByEmail_def
        NewAuthService_def two_users_simps Let_def)
  have af: "fst (Authenticate ?s ''alice@example.com'' ''test-password'' 900)
             = Inr (alice\<lparr>User_LastLogin := 900\<rparr>)"
    by (simp add: Authenticate_def MemoryUserRepository_GetByEmail_def
        NewAuthService_def two_users_simps Let_def)
  show ?thesis
    using session_expiry_ignores_rememberMe
      [of ?s "alice\<lparr>User_LastLogin := 900\<rparr>" 1000 1000 1000 ?form 900 ?s1] a af
    by (simp add: TrimSpace_examples GenerateSessionToken_alice_1000)
qed

text \<open>
  C5, run on the code. The development account logs in: \<open>Login\<close> answers with the
  cookie \<open>session\<close> holding the token of a session that is stored and live. On the next
  request, carrying that cookie, \<open>SessionMiddleware\<close> looks for \<open>session_token\<close>, finds
  none and leaves the request unauthenticated, and \<open>RequireAuth\<close> sends it to the login
  page.
\<close>

theorem Login_cookie_missed_by_SessionMiddleware:
  "fst (Login (NewAuthService seeded)
          \<lparr>form_email = ''test@untie.me'', form_password = ''any-password'',
           form_remember_me = []\<rparr> 900 1000 1000 1000)
     = (Redirect 303 ''/'',
        [\<lparr>Cookie_name = ''session'', Cookie_value = ''session-1000-0-0'',
          Cookie_maxAge = 3600, Cookie_path = ''/'', Cookie_domain = [],
          Cookie_secure = False, Cookie_httpOnly = True\<rparr>])
   \<and> sessions (snd (Login (NewAuthService seeded)
          \<lparr>form_email = ''test@untie.me'', form_password = ''any-password'',
           form_remember_me = []\<rparr> 900 1000 1000 1000)) ''session-1000-0-0''
     = Some \<lparr>userID = ''0-0'', expiresAt = 1000 + 24 * Hour, lastActive = 1000\<rparr>
   \<and> fst (SessionMiddleware
          (snd (Login (NewAuthService seeded)
             \<lparr>form_email = ''test@untie.me'', form_password = ''any-password'',
              form_remember_me = []\<rparr> 900 1000 1000 1000))
          (cookies_sent_back (snd (fst (Login (NewAuthService seeded)
             \<lparr>form_email = ''test@untie.me'', form_password = ''any-password'',
              form_remember_me = []\<rparr> 900 1000 1000 1000))))
          2000 2000)
     = (\<lparr>ctx_user = None, ctx_authenticated = Some False\<rparr>, [])
   \<and> RequireAuth \<lparr>ctx_user = None, ctx_authenticated = Some False\<rparr> ''/projects''
     = Some (Redirect 302 ''/auth/login'',
         [\<lparr>Cookie_name = ''return_to'', Cookie_value = ''/projects'', Cookie_maxAge = 300,
           Cookie_path = ''/'', Cookie_domain = [], Cookie_secure = False,
           Cookie_httpOnly = True\<rparr>])"
  by (simp add: Login_def Let_def TrimSpace_examples Authenticate_def
      MemoryUserRepository_GetByEmail_def NewAuthService_def seeded_simps
      GenerateSessionToken_test_user_1000 SessionMiddleware_def cookies_sent_back_def
      RequireAuth_def)

text \<open>
  The other \<open>Login\<close>, which sets \<open>session_token\<close>, is found by the middleware on
  the next request.
\<close>

lemma Login_session_token_found_by_SessionMiddleware:
  "fst (SessionMiddleware
          (snd (Login_session_token (NewAuthService seeded)
             \<lparr>form_email = ''test@untie.me'', form_password = ''any-password'',
              form_remember_me = []\<rparr> Map.empty 900 1000 1000 1000))
          (cookies_sent_back (snd (fst (Login_session_token (NewAuthService seeded)
             \<lparr>form_email = ''test@untie.me'', form_password = ''any-password'',
              form_remember_me = []\<rparr> Map.empty 900 1000 1000 1000))))
          2000 2000)
     = (\<lparr>ctx_user = Some (test_user\<lparr>User_LastLogin := 900\<rparr>),
         ctx_authenticated = Some True\<rparr>, [])"
  by (simp add: Login_session_token_def Let_def Authenticate_def
      MemoryUserRepository_GetByEmail_def MemoryUserRepository_GetByID_def
      MemoryUserRepository_Update_def NewAuthService_def seeded_simps
      GenerateSessionToken_test_user_1000 SessionMiddleware_def cookies_sent_back_def
      VerifySession_def Hour_def test_user_fields)

section \<open>What a copy of a project shares with the store\<close>

text \<open>
  C3, run on the code. A project with one feature and one frontend entry is stored.
  \<open>GetByID\<close> returns a copy; writing \<open>Features[0].Name\<close> through the copy changes
  what the next \<open>GetByID\<close> of the same project reads. \<open>List\<close> returns a copy; writing
  \<open>TechStack.Frontend[0]\<close> through it changes what the next \<open>List\<close> reads.
\<close>

theorem GetByID_and_List_share_backing_arrays:
  "(case MemoryProjectRepository_GetByID alpha_repo ''p1'' of
      Inl err \<Rightarrow> False
    | Inr got \<Rightarrow>
        read_Features heap0 got = [(''f1'', ''Login'', ''sign in'', [])]
        \<and> (case assign_Feature_Name heap0 (Project_Features got) 0 ''Hacked'' of
             None \<Rightarrow> False
           | Some heap1 \<Rightarrow>
               (case MemoryProjectRepository_GetByID alpha_repo ''p1'' of
                  Inl err \<Rightarrow> False
                | Inr again \<Rightarrow>
                    read_Features heap1 again = [(''f1'', ''Hacked'', ''sign in'', [])])))
   \<and> (case fst (MemoryProjectRepository_List alpha_repo [''p1''] ''1-1'') of
        [listed] \<Rightarrow>
          read_TechStack heap0 listed = [[''React''], [], [], [], [], []]
          \<and> (case assign_string heap0 (Frontend (Project_TechStack listed)) 0 ''jQuery'' of
               None \<Rightarrow> False
             | Some heap1 \<Rightarrow>
                 map (read_TechStack heap1)
                   (fst (MemoryProjectRepository_List alpha_repo [''p1''] ''1-1''))
                   = [[[''jQuery''], [], [], [], [], []]])
      | _ \<Rightarrow> False)"
  by (simp add: MemoryProjectRepository_GetByID_def MemoryProjectRepository_List_def
      List.map_filter_def alpha_repo_simps alpha_def heap0_def login_feature_def nil_slice_def
      read_Features_def read_TechStack_def range_Feature_def range_FeatureImpl_def
      range_string_def assign_Feature_Name_def assign_string_def)

section \<open>Which map accesses happen under a lock\<close>

text \<open>
  Every method of the user repository reaches its maps with the repository's lock held,
  for writing where it writes.
\<close>

lemma MemoryUserRepository_operations_guarded:
  "guarded UserRepository Unheld (MemoryUserRepository_GetByID_events r i)"
  "guarded UserRepository Unheld (MemoryUserRepository_GetByEmail_events r email)"
  "guarded UserRepository Unheld (MemoryUserRepository_Create_events r user)"
  "guarded UserRepository Unheld (MemoryUserRepository_Update_events r user)"
  "guarded UserRepository Unheld (MemoryUserRepository_Delete_events r i)"
  by (simp_all add: MemoryUserRepository_GetByID_events_def
      MemoryUserRepository_GetByEmail_events_def MemoryUserRepository_Create_events_def
      MemoryUserRepository_Update_events_def MemoryUserRepository_Delete_events_def
      split: option.split)

text \<open>
  C10, run on the code. \<open>GenerateSessionToken\<close>, \<open>VerifySession\<close> and
  \<open>InvalidateSession\<close> each touch the map of sessions with no lock of the session
  registry held, in every state and for every argument: the first access already is
  unguarded. The events of the three calls on a stored, live session are listed.
\<close>

theorem session_map_accessed_without_lock:
  "\<not> guarded SessionRegistry Unheld (GenerateSessionToken_events s user)
   \<and> \<not> guarded SessionRegistry Unheld (VerifySession_events s sessionToken nowCheck)
   \<and> \<not> guarded SessionRegistry Unheld (InvalidateSession_events s sessionToken)
   \<and> GenerateSessionToken_events (NewAuthService two_users) alice = [MapWrite SessionRegistry]
   \<and> VerifySession_events alice_session ''session-1000-1-1'' 2000
       = [MapRead SessionRegistry, RLock UserRepository, MapRead UserRepository,
          RUnlock UserRepository, MapWrite SessionRegistry]
   \<and> InvalidateSession_events alice_session ''session-1000-1-1''
       = [MapRead SessionRegistry, MapWrite SessionRegistry]"
  by (simp add: GenerateSessionToken_events_def VerifySession_events_def
      InvalidateSession_events_def MemoryUserRepository_GetByID_events_def
      MemoryUserRepository_GetByID_def alice_session_simps two_users_simps Hour_def)

end
